theory Spec2Isabelle
  imports Complex_Main
begin

section \<open>JavaScript numbers\<close>

text \<open>
  The calculator (script.js) computes with JavaScript numbers. A number is modelled as
  a real, one of the two infinities, or NaN. Finite arithmetic is exact: the rounding of
  IEEE doubles, overflow to an infinity and the sign of zero are left out (a zero divisor
  is the positive zero, which is what \<open>65 - heatingDesign\<close> yields when both are equal).
  The special values follow the language: a non-zero number divided by zero is an
  infinity, \<open>0 / 0\<close> and \<open>Infinity * 0\<close> are NaN, every comparison with NaN is false.
  A value that may be \<open>undefined\<close> or \<open>null\<close> is a \<open>jsnum option\<close>, \<open>None\<close> standing
  for the absent value.
\<close>

datatype jsnum = Num real | PosInf | NegInf | NaN

fun isFinite :: "jsnum \<Rightarrow> bool" where
  "isFinite (Num x) = True"
| "isFinite PosInf = False"
| "isFinite NegInf = False"
| "isFinite NaN = False"

text \<open>\<open>Number(v)\<close> of a value that is a number or \<open>undefined\<close>.\<close>

fun toNumber :: "jsnum option \<Rightarrow> jsnum" where
  "toNumber None = NaN"
| "toNumber (Some n) = n"

text \<open>\<open>Number.isFinite(v)\<close> of a value that is a number or \<open>undefined\<close>.\<close>

definition isFiniteV :: "jsnum option \<Rightarrow> bool" where
  "isFiniteV v = isFinite (toNumber v)"

text \<open>Truthiness of a number: \<open>0\<close> and NaN are falsy.\<close>

fun truthy :: "jsnum \<Rightarrow> bool" where
  "truthy (Num x) = (x \<noteq> 0)"
| "truthy PosInf = True"
| "truthy NegInf = True"
| "truthy NaN = False"

text \<open>\<open>a || b\<close> on numbers.\<close>

definition jsor :: "jsnum \<Rightarrow> jsnum \<Rightarrow> jsnum" where
  "jsor a b = (if truthy a then a else b)"

text \<open>The infinity with the sign of a real; NaN for zero.\<close>

definition inf_of_sign :: "real \<Rightarrow> jsnum" where
  "inf_of_sign s = (if 0 < s then PosInf else if s < 0 then NegInf else NaN)"

fun jsneg :: "jsnum \<Rightarrow> jsnum" where
  "jsneg (Num x) = Num (- x)"
| "jsneg PosInf = NegInf"
| "jsneg NegInf = PosInf"
| "jsneg NaN = NaN"

fun jsadd :: "jsnum \<Rightarrow> jsnum \<Rightarrow> jsnum" where
  "jsadd (Num x) (Num y) = Num (x + y)"
| "jsadd NaN _ = NaN"
| "jsadd _ NaN = NaN"
| "jsadd PosInf NegInf = NaN"
| "jsadd NegInf PosInf = NaN"
| "jsadd PosInf _ = PosInf"
| "jsadd NegInf _ = NegInf"
| "jsadd _ PosInf = PosInf"
| "jsadd _ NegInf = NegInf"

definition jssub :: "jsnum \<Rightarrow> jsnum \<Rightarrow> jsnum" where
  "jssub a b = jsadd a (jsneg b)"

fun jsmul :: "jsnum \<Rightarrow> jsnum \<Rightarrow> jsnum" where
  "jsmul (Num x) (Num y) = Num (x * y)"
| "jsmul NaN _ = NaN"
| "jsmul _ NaN = NaN"
| "jsmul PosInf (Num y) = inf_of_sign y"
| "jsmul NegInf (Num y) = inf_of_sign (- y)"
| "jsmul (Num x) PosInf = inf_of_sign x"
| "jsmul (Num x) NegInf = inf_of_sign (- x)"
| "jsmul PosInf PosInf = PosInf"
| "jsmul NegInf NegInf = PosInf"
| "jsmul PosInf NegInf = NegInf"
| "jsmul NegInf PosInf = NegInf"

fun jsdiv :: "jsnum \<Rightarrow> jsnum \<Rightarrow> jsnum" where
  "jsdiv (Num x) (Num y) = (if y = 0 then inf_of_sign x else Num (x / y))"
| "jsdiv NaN _ = NaN"
| "jsdiv _ NaN = NaN"
| "jsdiv (Num x) PosInf = Num 0"
| "jsdiv (Num x) NegInf = Num 0"
| "jsdiv PosInf (Num y) = (if 0 \<le> y then PosInf else NegInf)"
| "jsdiv NegInf (Num y) = (if 0 \<le> y then NegInf else PosInf)"
| "jsdiv PosInf PosInf = NaN"
| "jsdiv PosInf NegInf = NaN"
| "jsdiv NegInf PosInf = NaN"
| "jsdiv NegInf NegInf = NaN"

fun jslt :: "jsnum \<Rightarrow> jsnum \<Rightarrow> bool" where
  "jslt (Num x) (Num y) = (x < y)"
| "jslt NaN _ = False"
| "jslt _ NaN = False"
| "jslt PosInf _ = False"
| "jslt _ NegInf = False"
| "jslt NegInf _ = True"
| "jslt _ PosInf = True"

fun jsle :: "jsnum \<Rightarrow> jsnum \<Rightarrow> bool" where
  "jsle (Num x) (Num y) = (x \<le> y)"
| "jsle NaN _ = False"
| "jsle _ NaN = False"
| "jsle NegInf _ = True"
| "jsle _ PosInf = True"
| "jsle PosInf _ = False"
| "jsle _ NegInf = False"

definition jsgt :: "jsnum \<Rightarrow> jsnum \<Rightarrow> bool" where
  "jsgt a b = jslt b a"

definition jsge :: "jsnum \<Rightarrow> jsnum \<Rightarrow> bool" where
  "jsge a b = jsle b a"

text \<open>\<open>Math.min\<close>, \<open>Math.max\<close>, \<open>Math.abs\<close> and \<open>Math.round\<close> (half rounds up).\<close>

definition jsmin :: "jsnum \<Rightarrow> jsnum \<Rightarrow> jsnum" where
  "jsmin a b = (if a = NaN \<or> b = NaN then NaN else if jsle a b then a else b)"

definition jsmax :: "jsnum \<Rightarrow> jsnum \<Rightarrow> jsnum" where
  "jsmax a b = (if a = NaN \<or> b = NaN then NaN else if jsle a b then b else a)"

fun jsabs :: "jsnum \<Rightarrow> jsnum" where
  "jsabs (Num x) = Num \<bar>x\<bar>"
| "jsabs PosInf = PosInf"
| "jsabs NegInf = PosInf"
| "jsabs NaN = NaN"

fun jsround :: "jsnum \<Rightarrow> jsnum" where
  "jsround (Num x) = Num (of_int \<lfloor>x + 1 / 2\<rfloor>)"
| "jsround PosInf = PosInf"
| "jsround NegInf = NegInf"
| "jsround NaN = NaN"

section \<open>Heat-pump share (calculateHeatPumpEfficiency)\<close>

text \<open>
  \<open>calculateHeatPumpEfficiency(heatingDesign, crossoverTemp, hdd)\<close>, script.js lines
  1050-1081. The result \<open>None\<close> is the \<open>null\<close> of the source. \<open>!hdd\<close> (here \<open>falsyV\<close>)
  holds for an absent \<open>hdd\<close>, for \<open>0\<close> and for NaN; an absent \<open>hdd\<close> compares as NaN.
\<close>

definition baseTemp :: jsnum where
  "baseTemp = Num 65"

definition falsyV :: "jsnum option \<Rightarrow> bool" where
  "falsyV v = (case v of None \<Rightarrow> True | Some n \<Rightarrow> \<not> truthy n)"

definition calculateHeatPumpEfficiency :: "jsnum \<Rightarrow> jsnum \<Rightarrow> jsnum option \<Rightarrow> jsnum option" where
  "calculateHeatPumpEfficiency heatingDesign crossoverTemp hdd =
     (if falsyV hdd \<or> jsle (toNumber hdd) (Num 0) then None
      else if jsge crossoverTemp baseTemp then Some (Num 1)
      else if jsle crossoverTemp heatingDesign then Some (Num 0)
      else
        (let totalRange = jssub baseTemp heatingDesign;
             hpRange = jssub baseTemp crossoverTemp
         in if jsle totalRange (Num 0) then Some (Num 0)
            else Some (jsmin (Num 1) (jsdiv hpRange totalRange))))"

text \<open>
  The hybrid split bar. \<open>setHybridSplitDefault\<close> (lines 1710-1722) puts the bar in its
  default state; \<open>setHybridSplit\<close> (lines 1676-1694) shows a finite percentage, clamped
  to \<open>[0, 100]\<close>, and falls back to the default otherwise; \<open>updateHybridSplitBar\<close>
  (lines 1725-1731) falls back to the default for a \<open>null\<close> share or one outside
  \<open>[0, 1]\<close>. The page elements are taken to exist.
\<close>

datatype split_bar = SplitDefault | SplitPercent jsnum

definition setHybridSplit :: "jsnum \<Rightarrow> split_bar" where
  "setHybridSplit hpPercent =
     (if \<not> isFinite hpPercent then SplitDefault
      else SplitPercent (jsmax (Num 0) (jsmin (Num 100) hpPercent)))"

definition updateHybridSplitBar :: "jsnum option \<Rightarrow> split_bar" where
  "updateHybridSplitBar heatPumpEfficiency =
     (case heatPumpEfficiency of
        None \<Rightarrow> SplitDefault
      | Some e \<Rightarrow>
          if jslt e (Num 0) \<or> jsgt e (Num 1) then SplitDefault
          else setHybridSplit (jsmul e (Num 100)))"

section \<open>Annual cost of one system (calculateSystemCosts)\<close>

text \<open>
  \<open>calculateSystemCosts\<close>, script.js lines 953-1048. The global \<open>houseLoads\<close> is passed
  as an argument. The three system types are the keys of the \<open>systems\<close> object built by
  \<open>calculateHVACCosts\<close>; a field of \<open>specs\<close> that the object of a system does not
  carry is \<open>undefined\<close> there and is never read for that system (it is NaN here).
\<close>

datatype systemType = HeatPump | Furnace | Hybrid

record specs =
  cop :: jsnum
  furnaceAFUE :: jsnum

record house_loads =
  loadHeating :: jsnum
  loadCooling :: jsnum

record cost_result =
  install :: jsnum
  energy :: jsnum
  maintenance :: jsnum
  total :: jsnum
  annualTherms :: jsnum
  annualKWh :: jsnum

text \<open>
  The \<open>heatPumpPercentage\<close> of the hybrid branch (lines 1013-1022), a step table on the
  distance between the heating design temperature and the crossover.
\<close>

definition heatPumpPercentage :: "jsnum \<Rightarrow> jsnum \<Rightarrow> jsnum" where
  "heatPumpPercentage heatingDesign xover =
     (if jsgt heatingDesign xover then Num 1
      else if jsgt heatingDesign (jssub xover (Num 15)) then Num (7 / 10)
      else if jsgt heatingDesign (jssub xover (Num 25)) then Num (1 / 2)
      else Num (3 / 10))"

text \<open>
  The body up to the annual loads (lines 957-974). The cooling quantities are computed
  and not used afterwards, as in the source.
\<close>

definition annualHeatingLoad :: "house_loads \<Rightarrow> jsnum \<Rightarrow> jsnum \<Rightarrow> jsnum" where
  "annualHeatingLoad houseLoads hdd heatingDesign =
     (let designHeatingLoad = jsor (loadHeating houseLoads) (Num 50000);
          indoorTemp = Num 65;
          heatingDesignDiff = jssub indoorTemp heatingDesign;
          heatLossRate = jsdiv designHeatingLoad heatingDesignDiff
      in jsmul (jsmul heatLossRate hdd) (Num 24))"

definition annualCoolingLoad :: "house_loads \<Rightarrow> jsnum \<Rightarrow> jsnum \<Rightarrow> jsnum" where
  "annualCoolingLoad houseLoads cdd coolingDesign =
     (let designCoolingLoad = jsor (loadCooling houseLoads) (Num 40000);
          indoorTemp = Num 65;
          coolingDesignDiff = jssub coolingDesign indoorTemp;
          coolGainRate = jsdiv designCoolingLoad coolingDesignDiff
      in jsmul (jsmul coolGainRate cdd) (Num 24))"

text \<open>
  The branch on the system type (lines 984-1036): the heating cost, the cooling cost,
  the therms and the kWh of the year.
\<close>

definition systemBranch ::
  "systemType \<Rightarrow> specs \<Rightarrow> jsnum \<Rightarrow> jsnum \<Rightarrow> jsnum \<Rightarrow> jsnum \<Rightarrow> jsnum
    \<Rightarrow> jsnum \<times> jsnum \<times> jsnum \<times> jsnum" where
  "systemBranch systemType sp annualLoad heatingDesign electricityRate gasRate crossoverTemp =
     (case systemType of
        Furnace \<Rightarrow>
          (let heatingTherms = jsdiv annualLoad (jsmul (Num 100000) (furnaceAFUE sp))
           in (jsmul heatingTherms gasRate, Num 0, heatingTherms, Num 0))
      | HeatPump \<Rightarrow>
          (let heatingkWh = jsdiv annualLoad (jsmul (cop sp) (Num 3412))
           in (jsmul heatingkWh electricityRate, Num 0, Num 0, heatingkWh))
      | Hybrid \<Rightarrow>
          (let xover = (if isFinite crossoverTemp then crossoverTemp else Num 35);
               pct = heatPumpPercentage heatingDesign xover;
               heatPumpHeatingLoad = jsmul annualLoad pct;
               gasHeatingLoad = jsmul annualLoad (jssub (Num 1) pct);
               heatPumpkWh = jsdiv heatPumpHeatingLoad (jsmul (cop sp) (Num 3412));
               gasHeatingTherms = jsdiv gasHeatingLoad (jsmul (Num 100000) (furnaceAFUE sp))
           in (jsadd (jsmul heatPumpkWh electricityRate) (jsmul gasHeatingTherms gasRate),
               Num 0, gasHeatingTherms, heatPumpkWh)))"

definition calculateSystemCosts ::
  "house_loads \<Rightarrow> systemType \<Rightarrow> specs \<Rightarrow> jsnum \<Rightarrow> jsnum \<Rightarrow> jsnum \<Rightarrow> jsnum \<Rightarrow> jsnum
    \<Rightarrow> jsnum \<Rightarrow> jsnum \<Rightarrow> cost_result" where
  "calculateSystemCosts houseLoads systemType sp hdd cdd heatingDesign coolingDesign
       electricityRate gasRate crossoverTemp =
     (let heatingLoad = annualHeatingLoad houseLoads hdd heatingDesign;
          coolingLoad = annualCoolingLoad houseLoads cdd coolingDesign
      in case systemBranch systemType sp heatingLoad heatingDesign electricityRate gasRate
                crossoverTemp of
           (annualHeatingCost, annualCoolingCost, therms, kWh) \<Rightarrow>
             (let annualEnergyCost = jsadd annualHeatingCost annualCoolingCost
              in \<lparr>install = Num 0, energy = jsround annualEnergyCost, maintenance = Num 0,
                  total = jsround annualEnergyCost, annualTherms = therms,
                  annualKWh = kWh\<rparr>))"

section \<open>Automatic crossover (computeAutoCrossoverTemperature)\<close>

text \<open>
  script.js lines 1090-1102. The arguments are numbers already, so \<open>parseFloat\<close> returns
  them unchanged.
\<close>

definition computeAutoCrossoverTemperature :: "jsnum \<Rightarrow> jsnum \<Rightarrow> jsnum \<Rightarrow> jsnum \<Rightarrow> jsnum" where
  "computeAutoCrossoverTemperature pricePerKWh pricePerTherm furnaceEffPercent copAt47F =
     (let afue = jsmax (Num (1 / 2)) (jsmin (Num 1) (jsdiv (jsor furnaceEffPercent (Num 95)) (Num 100)));
          e = jsmax (Num (1 / 100)) (jsor pricePerKWh (Num (12 / 100)));
          g = jsmax (Num (1 / 100)) (jsor pricePerTherm (Num (12 / 10)));
          cop47 = jsmax (Num 1) (jsor copAt47F (Num (35 / 10)));
          cop17 = jsmax (Num 1) (jssub cop47 (Num (15 / 10)));
          slopePerDeg = jsdiv (jssub cop17 cop47) (Num (17 - 47));
          copThreshold = jsmul (jsmul (Num (293 / 10)) afue) (jsdiv e g)
      in if jslt (jsabs slopePerDeg) (Num (1 / 1000000)) then Num 35
         else (let t = jsadd (Num 47) (jsdiv (jssub copThreshold cop47) slopePerDeg)
               in jsmax (Num 0) (jsmin (Num 70) t)))"

section \<open>Costs of the three systems (calculateHVACCosts)\<close>

text \<open>
  The climate record that the lookup stores in the global \<open>climateData\<close> and that
  \<open>normalizeCountyEntry\<close> builds. A numeric field may be \<open>undefined\<close>.
\<close>

record climate =
  name :: string
  heating :: "jsnum option"
  cooling :: "jsnum option"
  hdd :: "jsnum option"
  cdd :: "jsnum option"
  source :: string
  lat :: "jsnum option"
  lon :: "jsnum option"

text \<open>
  The form fields that \<open>calculateHVACCosts\<close> reads, each as the result of \<open>parseFloat\<close>
  on its text (NaN when the text is not a number), and the state of the checkbox.
\<close>

record form_inputs =
  electricityRateField :: jsnum
  gasRateField :: jsnum
  heatPumpCOPField :: jsnum
  furnaceEfficiencyField :: jsnum
  autoCrossover :: bool
  crossoverTempField :: jsnum

record cost_results =
  heatPump :: cost_result
  furnace :: cost_result
  hybrid :: cost_result

record hvac_output =
  results :: cost_results
  maxCost :: jsnum
  crossoverUsed :: jsnum
  splitBar :: split_bar

text \<open>
  \<open>calculateHVACCosts\<close>, script.js lines 889-951: the three cost records, the largest
  total, the crossover temperature that was used and the state of the split bar. The
  rendering of the results is left out. An \<open>undefined\<close> \<open>hdd\<close> or \<open>heating\<close> reaches the
  arithmetic as NaN.
\<close>

definition calculateHVACCosts :: "house_loads \<Rightarrow> climate \<Rightarrow> form_inputs \<Rightarrow> hvac_output" where
  "calculateHVACCosts houseLoads climateData inp =
     (let hddV = toNumber (hdd climateData);
          cddV = (if isFiniteV (cdd climateData) then toNumber (cdd climateData) else Num 0);
          heatingDesign = toNumber (heating climateData);
          coolingDesign = (if isFiniteV (cooling climateData) then toNumber (cooling climateData) else Num 0);
          electricityRate = jsor (electricityRateField inp) (Num (12 / 100));
          gasRate = jsor (gasRateField inp) (Num (12 / 10));
          heatPumpCOP = jsor (heatPumpCOPField inp) (Num (35 / 10));
          furnaceEfficiency = jsor (furnaceEfficiencyField inp) (Num 95);
          crossover0 = (if isFinite (crossoverTempField inp) then crossoverTempField inp else Num 35);
          crossoverTemp =
            (if autoCrossover inp
             then jsmax (Num 20) (jsmin (Num 50)
                    (jsround (computeAutoCrossoverTemperature electricityRate gasRate
                                furnaceEfficiency heatPumpCOP)))
             else crossover0);
          costs = (\<lambda>systemType sp.
            calculateSystemCosts houseLoads systemType sp hddV cddV heatingDesign coolingDesign
              electricityRate gasRate crossoverTemp);
          hp = costs HeatPump \<lparr>cop = heatPumpCOP, furnaceAFUE = NaN\<rparr>;
          fu = costs Furnace \<lparr>cop = NaN, furnaceAFUE = jsdiv furnaceEfficiency (Num 100)\<rparr>;
          hy = costs Hybrid \<lparr>cop = heatPumpCOP, furnaceAFUE = jsdiv furnaceEfficiency (Num 100)\<rparr>
      in \<lparr>results = \<lparr>heatPump = hp, furnace = fu, hybrid = hy\<rparr>,
          maxCost = jsmax (jsmax (total hp) (total fu)) (total hy),
          crossoverUsed = crossoverTemp,
          splitBar = updateHybridSplitBar
            (calculateHeatPumpEfficiency heatingDesign crossoverTemp (hdd climateData))\<rparr>)"

section \<open>Great-circle distance (calculateDistance, haversine)\<close>

text \<open>
  \<open>Math.sin\<close>, \<open>Math.cos\<close>, \<open>Math.sqrt\<close> and \<open>Math.atan2\<close>: the real function on a
  finite argument, NaN on NaN and on an infinite angle, NaN for the root of a negative
  number, and for \<open>atan2\<close> the limits that the language gives at the infinities.
\<close>

definition jsPI :: jsnum where
  "jsPI = Num pi"

fun jssin :: "jsnum \<Rightarrow> jsnum" where
  "jssin (Num x) = Num (sin x)"
| "jssin _ = NaN"

fun jscos :: "jsnum \<Rightarrow> jsnum" where
  "jscos (Num x) = Num (cos x)"
| "jscos _ = NaN"

fun jssqrt :: "jsnum \<Rightarrow> jsnum" where
  "jssqrt (Num x) = (if x < 0 then NaN else Num (sqrt x))"
| "jssqrt PosInf = PosInf"
| "jssqrt NegInf = NaN"
| "jssqrt NaN = NaN"

definition atan2 :: "real \<Rightarrow> real \<Rightarrow> real" where
  "atan2 y x =
     (if 0 < x then arctan (y / x)
      else if x < 0 then (if 0 \<le> y then arctan (y / x) + pi else arctan (y / x) - pi)
      else if 0 < y then pi / 2
      else if y < 0 then - (pi / 2)
      else 0)"

fun jsatan2 :: "jsnum \<Rightarrow> jsnum \<Rightarrow> jsnum" where
  "jsatan2 (Num y) (Num x) = Num (atan2 y x)"
| "jsatan2 NaN _ = NaN"
| "jsatan2 _ NaN = NaN"
| "jsatan2 (Num y) PosInf = Num 0"
| "jsatan2 (Num y) NegInf = (if 0 \<le> y then Num pi else Num (- pi))"
| "jsatan2 PosInf (Num x) = Num (pi / 2)"
| "jsatan2 NegInf (Num x) = Num (- (pi / 2))"
| "jsatan2 PosInf PosInf = Num (pi / 4)"
| "jsatan2 PosInf NegInf = Num (3 * pi / 4)"
| "jsatan2 NegInf PosInf = Num (- (pi / 4))"
| "jsatan2 NegInf NegInf = Num (- (3 * pi / 4))"

text \<open>
  The body shared by \<open>calculateDistance\<close> (lines 781-791, radius 3959 miles) and
  \<open>haversine\<close> (lines 252-260, radius 6371 km). Neither function tests its arguments.
\<close>

definition toRad :: "jsnum \<Rightarrow> jsnum" where
  "toRad v = jsdiv (jsmul v jsPI) (Num 180)"

definition greatCircle :: "jsnum \<Rightarrow> jsnum \<Rightarrow> jsnum \<Rightarrow> jsnum \<Rightarrow> jsnum \<Rightarrow> jsnum" where
  "greatCircle R lat1 lon1 lat2 lon2 =
     (let dLat = toRad (jssub lat2 lat1);
          dLon = toRad (jssub lon2 lon1);
          a = jsadd (jsmul (jssin (jsdiv dLat (Num 2))) (jssin (jsdiv dLat (Num 2))))
                (jsmul (jsmul (jsmul (jscos (toRad lat1)) (jscos (toRad lat2)))
                   (jssin (jsdiv dLon (Num 2)))) (jssin (jsdiv dLon (Num 2))));
          c = jsmul (Num 2) (jsatan2 (jssqrt a) (jssqrt (jssub (Num 1) a)))
      in jsmul R c)"

definition calculateDistance :: "jsnum \<Rightarrow> jsnum \<Rightarrow> jsnum \<Rightarrow> jsnum \<Rightarrow> jsnum" where
  "calculateDistance lat1 lon1 lat2 lon2 = greatCircle (Num 3959) lat1 lon1 lat2 lon2"

definition haversine :: "jsnum \<Rightarrow> jsnum \<Rightarrow> jsnum \<Rightarrow> jsnum \<Rightarrow> jsnum" where
  "haversine lat1 lon1 lat2 lon2 = greatCircle (Num 6371) lat1 lon1 lat2 lon2"

section \<open>Nearest-match scans\<close>

text \<open>
  The three scans share one loop: the best candidate so far and its distance, replaced
  only by a strictly smaller distance. A distance that is NaN is never smaller.
\<close>

fun scanNearest :: "('a \<Rightarrow> jsnum) \<Rightarrow> 'a list \<Rightarrow> 'a option \<Rightarrow> jsnum \<Rightarrow> 'a option \<times> jsnum" where
  "scanNearest distTo [] best bestD = (best, bestD)"
| "scanNearest distTo (s # ss) best bestD =
     (let d = distTo s
      in if jslt d bestD then scanNearest distTo ss (Some s) d
         else scanNearest distTo ss best bestD)"

text \<open>
  A station of the NOAA station database (the JSON array of
  \<open>noaa_climate_database.json\<close>). A field is a number or missing.
\<close>

record noaa_station =
  latitude :: "jsnum option"
  longitude :: "jsnum option"
  st_hdd :: "jsnum option"
  st_cdd :: "jsnum option"
  st_name :: "string option"
  station_id :: "string option"

text \<open>
  \<open>findNearestNoaaStation\<close>, lines 36-47: the nearest station and the distance in miles
  rounded to one decimal, or \<open>null\<close>. Stations without finite coordinates are skipped.
\<close>

definition findNearestNoaaStation ::
  "jsnum \<Rightarrow> jsnum \<Rightarrow> noaa_station list \<Rightarrow> (noaa_station \<times> jsnum) option" where
  "findNearestNoaaStation lat0 lon0 stations =
     (if \<not> isFinite lat0 \<or> \<not> isFinite lon0 \<or> stations = [] then None
      else
        (case scanNearest
                (\<lambda>s. calculateDistance lat0 lon0 (toNumber (latitude s)) (toNumber (longitude s)))
                (filter (\<lambda>s. isFiniteV (latitude s) \<and> isFiniteV (longitude s)) stations)
                None PosInf of
           (None, _) \<Rightarrow> None
         | (Some best, bestD) \<Rightarrow>
             Some (best, jsdiv (jsround (jsmul bestD (Num 10))) (Num 10))))"

text \<open>
  A station parsed from the NOAA normals CSV (lines 210-217), and \<open>nearestStation\<close>,
  lines 242-250, which measures in kilometres. The query coordinates come from a
  dataset entry and may be missing.
\<close>

record normals_station =
  ns_id :: string
  ns_name :: string
  ns_lat :: jsnum
  ns_lon :: jsnum
  ns_hdd :: "jsnum option"
  ns_cdd :: "jsnum option"

definition nearestStation ::
  "jsnum option \<Rightarrow> jsnum option \<Rightarrow> normals_station list \<Rightarrow> normals_station option" where
  "nearestStation lat0 lon0 stations =
     (if \<not> isFiniteV lat0 \<or> \<not> isFiniteV lon0 \<or> stations = [] then None
      else fst (scanNearest
                  (\<lambda>s. haversine (toNumber lat0) (toNumber lon0) (ns_lat s) (ns_lon s))
                  stations None PosInf))"

section \<open>Dataset entries and the static tables\<close>

text \<open>
  A raw entry of a dataset, with every field that the code reads under any of its
  spellings. A numeric field is a number or missing, a text field a string or missing.
\<close>

record raw_entry =
  r_name :: "string option"
  r_state :: "string option"
  r_fips :: "string option"
  r_heating :: "jsnum option"
  r_heating_99 :: "jsnum option"
  r_heatingDesign :: "jsnum option"
  r_heating_design :: "jsnum option"
  r_cooling :: "jsnum option"
  r_cooling_01 :: "jsnum option"
  r_coolingDesign :: "jsnum option"
  r_cooling_design :: "jsnum option"
  r_hdd :: "jsnum option"
  r_HDD :: "jsnum option"
  r_heating_degree_days :: "jsnum option"
  r_HDD65 :: "jsnum option"
  r_cdd :: "jsnum option"
  r_CDD :: "jsnum option"
  r_cooling_degree_days :: "jsnum option"
  r_CDD65 :: "jsnum option"
  r_source :: "string option"
  r_lat :: "jsnum option"
  r_lon :: "jsnum option"

text \<open>An entry with no field set, the starting point of the table literals below.\<close>

definition emptyEntry :: raw_entry where
  "emptyEntry = \<lparr>r_name = None, r_state = None, r_fips = None,
     r_heating = None, r_heating_99 = None, r_heatingDesign = None, r_heating_design = None,
     r_cooling = None, r_cooling_01 = None, r_coolingDesign = None, r_cooling_design = None,
     r_hdd = None, r_HDD = None, r_heating_degree_days = None, r_HDD65 = None,
     r_cdd = None, r_CDD = None, r_cooling_degree_days = None, r_CDD65 = None,
     r_source = None, r_lat = None, r_lon = None\<rparr>"

text \<open>
  The shape of the entries of the ZIP tables:
  \<open>{ name, heating, cooling, hdd, cdd, source, lat, lon }\<close>.
\<close>

definition zipEntry ::
  "string \<Rightarrow> real \<Rightarrow> real \<Rightarrow> real \<Rightarrow> real \<Rightarrow> string \<Rightarrow> real \<Rightarrow> real \<Rightarrow> raw_entry" where
  "zipEntry n h c hdv cdv src la lo =
     emptyEntry\<lparr>r_name := Some n, r_heating := Some (Num h), r_cooling := Some (Num c),
       r_hdd := Some (Num hdv), r_cdd := Some (Num cdv), r_source := Some src,
       r_lat := Some (Num la), r_lon := Some (Num lo)\<rparr>"

definition miamiEntry :: raw_entry where
  "miamiEntry = zipEntry ''Miami, FL'' 48 89 200 3500 ''Miami International Airport''
     (25795 / 1000) (- (80287 / 1000))"

text \<open>
  \<open>RESNET_ASHRAE_DATA\<close> (resnet\_ashrae\_data.js), as the list of its properties in the
  order in which \<open>Object.values\<close> enumerates them: the keys that are canonical integers
  in ascending order, then \<open>02101\<close>.
\<close>

definition RESNET_ASHRAE_DATA :: "(string \<times> raw_entry) list" where
  "RESNET_ASHRAE_DATA =
    [(''10001'', zipEntry ''New York, NY'' 8 88 5000 600 ''John F. Kennedy International Airport'' (40641 / 1000) (- (73778 / 1000))),
     (''30301'', zipEntry ''Atlanta, GA'' 18 92 3000 1800 ''Hartsfield-Jackson Atlanta International Airport'' (33640 / 1000) (- (84428 / 1000))),
     (''33040'', zipEntry ''Key West, FL'' 50 90 100 3800 ''Key West International Airport'' (24556 / 1000) (- (81759 / 1000))),
     (''33101'', miamiEntry),
     (''55401'', zipEntry ''Minneapolis, MN'' (- 15) 85 9000 300 ''Minneapolis-Saint Paul International Airport'' (44884 / 1000) (- (93222 / 1000))),
     (''60601'', zipEntry ''Chicago, IL'' (- 5) 88 7000 600 (''Chicago O'' @ [CHR 0x27] @ ''Hare International Airport'') (41978 / 1000) (- (87907 / 1000))),
     (''75201'', zipEntry ''Dallas, TX'' 18 98 2500 2500 ''Dallas/Fort Worth International Airport'' (32896 / 1000) (- (97038 / 1000))),
     (''77001'', zipEntry ''Houston, TX'' 28 95 1500 3000 ''George Bush Intercontinental Airport'' (29984 / 1000) (- (95341 / 1000))),
     (''80202'', zipEntry ''Denver, CO'' 5 92 6000 800 ''Denver International Airport'' (39856 / 1000) (- (104673 / 1000))),
     (''83001'', zipEntry ''Jackson, WY'' (- 15) 82 10000 200 ''Jackson Hole Airport'' (43607 / 1000) (- (110738 / 1000))),
     (''85001'', zipEntry ''Phoenix, AZ'' 32 108 1000 4500 ''Phoenix Sky Harbor International Airport'' (33434 / 1000) (- (112011 / 1000))),
     (''89101'', zipEntry ''Las Vegas, NV'' 28 108 1500 3500 ''McCarran International Airport'' (36085 / 1000) (- (115153 / 1000))),
     (''90210'', zipEntry ''Los Angeles, CA'' 40 85 800 1200 ''Los Angeles International Airport'' (34052 / 1000) (- (118244 / 1000))),
     (''94102'', zipEntry ''San Francisco, CA'' 38 75 2000 200 ''San Francisco International Airport'' (37774 / 1000) (- (122419 / 1000))),
     (''96001'', zipEntry ''Redding, CA'' 25 108 3000 2500 ''Redding Municipal Airport'' (40509 / 1000) (- (122293 / 1000))),
     (''97201'', zipEntry ''Portland, OR'' 20 88 4000 400 ''Portland International Airport'' (45589 / 1000) (- (122593 / 1000))),
     (''97501'', zipEntry ''Jacksonville, OR'' 15 98 4500 600 ''Rogue Valley International-Medford Airport'' (42374 / 1000) (- (122873 / 1000))),
     (''97701'', zipEntry ''Bend, OR'' 5 88 6000 300 ''Bend Municipal Airport'' (44094 / 1000) (- (121200 / 1000))),
     (''98101'', zipEntry ''Seattle, WA'' 25 82 4000 200 ''Seattle-Tacoma International Airport'' (47450 / 1000) (- (122309 / 1000))),
     (''02101'', zipEntry ''Boston, MA'' 5 85 6000 400 ''Logan International Airport'' (42360 / 1000) (- (71058 / 1000)))]"

text \<open>\<open>LOCAL_RESNET_FALLBACK\<close>, script.js lines 467-470.\<close>

definition LOCAL_RESNET_FALLBACK :: "(string \<times> raw_entry) list" where
  "LOCAL_RESNET_FALLBACK =
    [(''01001'', zipEntry ''AGAWAM/WESTFIELD, MA'' 5 87 6479 764 ''Hardcoded Fallback'' (421 / 10) (- (726 / 10))),
     (''97201'', zipEntry ''PORTLAND, OR'' 25 85 4635 341 ''Hardcoded Fallback'' (455 / 10) (- (1227 / 10)))]"

text \<open>\<open>ZIP_TO_FIPS_OVERRIDE\<close>, script.js lines 50-56.\<close>

definition ZIP_TO_FIPS_OVERRIDE :: "(string \<times> string) list" where
  "ZIP_TO_FIPS_OVERRIDE =
    [(''97201'', ''41051''), (''97219'', ''41051''), (''97501'', ''41029''),
     (''97015'', ''41005''), (''96001'', ''06089'')]"

text \<open>The en dash of the source texts, as its three UTF-8 bytes.\<close>

definition enDash :: string where
  "enDash = [CHR 0xE2, CHR 0x80, CHR 0x93]"

text \<open>
  The shape of the entries of \<open>ASHRAE_COUNTY_DATA\<close>, and the data set of
  ashrae\_county\_data\_updated.js. Every entry carries its own \<open>fips\<close>, so the index that
  \<open>buildCountyFipsIndex\<close> builds from it has the same keys and entries.
\<close>

definition countyEntry ::
  "string \<Rightarrow> string \<Rightarrow> string \<Rightarrow> real \<Rightarrow> real \<Rightarrow> real \<Rightarrow> real \<Rightarrow> string \<Rightarrow> real \<Rightarrow> real \<Rightarrow> raw_entry" where
  "countyEntry n st fp h c hdv cdv src la lo =
     (zipEntry n h c hdv cdv src la lo)\<lparr>r_state := Some st, r_fips := Some fp\<rparr>"

definition clackamasEntry :: raw_entry where
  "clackamasEntry = countyEntry ''Clackamas County, OR'' ''OR'' ''41005'' 24 88 4000 400
     ''Appendix A (design temps, PDX proxy) + HDD/CDD provisional for dev test''
     (4541 / 100) (- (12257 / 100))"

definition ASHRAE_COUNTY_DATA :: "(string \<times> raw_entry) list" where
  "ASHRAE_COUNTY_DATA =
    [(''41051'', countyEntry ''Multnomah County, OR'' ''OR'' ''41051'' 24 88 4000 400
        ''Appendix A (Normative) 2013 + RESNET HDD/CDD (Portland Intl Airport)'' (4552 / 100) (- (12268 / 100))),
     (''41029'', countyEntry ''Jackson County, OR'' ''OR'' ''41029'' 15 98 4500 600
        (''Appendix A (Normative) + RESNET HDD/CDD (Rogue Valley Intl'' @ enDash @ ''Medford)'') (4233 / 100) (- (12287 / 100))),
     (''41005'', clackamasEntry),
     (''06089'', countyEntry ''Shasta County, CA'' ''CA'' ''06089'' 25 108 3000 2500
        (''RESNET/ASHRAE (Redding 96001) '' @ enDash @ '' Redding Municipal Airport normals'') (40509 / 1000) (- (122293 / 1000)))]"

section \<open>Climate record resolver (lookupClimateData)\<close>

text \<open>
  \<open>String.prototype.trim\<close> on the ASCII white space, and \<open>a || b\<close> for a text that may be
  missing (a missing and an empty text are falsy).
\<close>

definition isSpace :: "char \<Rightarrow> bool" where
  "isSpace c = (c \<in> set [CHR '' '', CHR 0x09, CHR 0x0A, CHR 0x0B, CHR 0x0C, CHR 0x0D])"

definition trim :: "string \<Rightarrow> string" where
  "trim t = rev (dropWhile isSpace (rev (dropWhile isSpace t)))"

definition strOr :: "string option \<Rightarrow> string \<Rightarrow> string" where
  "strOr v d = (case v of None \<Rightarrow> d | Some t \<Rightarrow> if t = [] then d else t)"

text \<open>
  The mutable globals that the lookup reads and writes: the ZIP table (the lookup
  rewrites the \<open>source\<close> of an entry it falls back to), the county index
  \<open>countyAshraeData\<close>, the cache of the station database (\<open>None\<close> is \<open>null\<close>, not loaded
  yet) and the current climate record. A table that is \<open>undefined\<close> is the empty table.
\<close>

record app_state =
  resnetTable :: "(string \<times> raw_entry) list"
  countyAshraeData :: "string \<rightharpoonup> raw_entry"
  NOAA_STATIONS_DB :: "noaa_station list option"
  climateData :: "climate option"

text \<open>
  What the collaborators answer. \<open>zipService\<close> is the result of \<open>getLocationFromZip\<close>
  (lines 633-661) and \<open>fipsService\<close> that of \<open>getCountyFIPS\<close> (lines 663-681); \<open>None\<close>
  means that the function throws. \<open>noaaDatabaseFile\<close> is the array in
  \<open>noaa_climate_database.json\<close>, \<open>None\<close> when the file cannot be fetched.
\<close>

record location =
  loc_latitude :: jsnum
  loc_longitude :: jsnum
  city :: string
  loc_state :: string

record fips_info =
  countyFIPS :: "string option"
  countyName :: string
  stateAbbr :: string

record world =
  fileProtocol :: bool
  zipService :: "string \<Rightarrow> location option"
  fipsService :: "jsnum \<Rightarrow> jsnum \<Rightarrow> fips_info option"
  noaaDatabaseFile :: "noaa_station list option"

datatype netcall = ZipCall string | FipsCall jsnum jsnum | NoaaDatabaseFetch

datatype lookup_error =
    InvalidZip
  | NeedsNetwork
  | LocationLookupFailed
  | FipsLookupFailed
  | AllLookupsFailed
  | MissingHeating
  | MissingHdd

text \<open>\<open>loadNoaaStationsDb\<close>, lines 16-34: fetched once, then served from the cache.\<close>

definition loadNoaaStationsDb :: "world \<Rightarrow> app_state \<Rightarrow> noaa_station list \<times> netcall list \<times> app_state" where
  "loadNoaaStationsDb w s =
     (case NOAA_STATIONS_DB s of
        Some db \<Rightarrow> (db, [], s)
      | None \<Rightarrow>
          (let db = (case noaaDatabaseFile w of None \<Rightarrow> [] | Some d \<Rightarrow> d)
           in (db, [NoaaDatabaseFetch], s\<lparr>NOAA_STATIONS_DB := Some db\<rparr>)))"

text \<open>Stage 1, lines 508-530: the entry of the ZIP tables and the record built from it.\<close>

definition selectZipEntry :: "(string \<times> raw_entry) list \<Rightarrow> string \<Rightarrow> raw_entry option" where
  "selectZipEntry resnet zipCode =
     (case map_of resnet zipCode of
        Some e \<Rightarrow> Some e
      | None \<Rightarrow> map_of LOCAL_RESNET_FALLBACK zipCode)"

definition requiredFinite :: "raw_entry \<Rightarrow> bool" where
  "requiredFinite zr =
     (isFiniteV (r_heating zr) \<and> isFiniteV (r_cooling zr)
      \<and> isFiniteV (r_hdd zr) \<and> isFiniteV (r_cdd zr))"

definition stage1Record :: "string \<Rightarrow> raw_entry \<Rightarrow> climate" where
  "stage1Record zipCode zr =
     \<lparr>name = strOr (r_name zr) (''ZIP '' @ zipCode),
      heating = Some (toNumber (r_heating zr)),
      cooling = Some (toNumber (r_cooling zr)),
      hdd = Some (toNumber (r_hdd zr)),
      cdd = Some (toNumber (r_cdd zr)),
      source =
        (if strOr (r_source zr) [] \<noteq> []
         then ''RESNET/ASHRAE ZIP '' @ zipCode @ '' '' @ enDash @ '' '' @ strOr (r_source zr) []
         else ''RESNET/ASHRAE ZIP '' @ zipCode),
      lat = Some (toNumber (r_lat zr)),
      lon = Some (toNumber (r_lon zr))\<rparr>"

text \<open>\<open>normalizeCountyEntry\<close>, lines 617-631.\<close>

definition getNum :: "jsnum option \<Rightarrow> jsnum option" where
  "getNum v = (if isFinite (toNumber v) then Some (toNumber v) else None)"

definition nullish :: "'a option \<Rightarrow> 'a option \<Rightarrow> 'a option" where
  "nullish a b = (case a of None \<Rightarrow> b | Some x \<Rightarrow> Some x)"

definition normalizeCountyEntry :: "raw_entry \<Rightarrow> fips_info \<Rightarrow> climate" where
  "normalizeCountyEntry entry fipsInfo =
     \<lparr>name = strOr (r_name entry) (countyName fipsInfo @ '', '' @ stateAbbr fipsInfo),
      heating = nullish (getNum (r_heating entry)) (nullish (getNum (r_heating_99 entry))
                  (nullish (getNum (r_heatingDesign entry)) (getNum (r_heating_design entry)))),
      cooling = nullish (getNum (r_cooling entry)) (nullish (getNum (r_cooling_01 entry))
                  (nullish (getNum (r_coolingDesign entry)) (getNum (r_cooling_design entry)))),
      hdd = nullish (getNum (r_hdd entry)) (nullish (getNum (r_HDD entry))
              (nullish (getNum (r_heating_degree_days entry)) (getNum (r_HDD65 entry)))),
      cdd = nullish (getNum (r_cdd entry)) (nullish (getNum (r_CDD entry))
              (nullish (getNum (r_cooling_degree_days entry)) (getNum (r_CDD65 entry)))),
      source = strOr (r_source entry) ''Appendix A (Normative) + RESNET HDD/CDD'',
      lat = getNum (r_lat entry),
      lon = getNum (r_lon entry)\<rparr>"

text \<open>
  \<open>getResnetStations\<close> and \<open>findNearestResnetStation\<close>, lines 472-494. The station is
  returned with its key, so that the assignment to its \<open>source\<close> can be written back to
  the table.
\<close>

definition getResnetStations :: "(string \<times> raw_entry) list \<Rightarrow> (string \<times> raw_entry) list" where
  "getResnetStations table =
     filter (\<lambda>(k, e). isFiniteV (r_lat e) \<and> isFiniteV (r_lon e)) table"

definition findNearestResnetStation ::
  "(string \<times> raw_entry) list \<Rightarrow> jsnum \<Rightarrow> jsnum \<Rightarrow> (string \<times> raw_entry) option" where
  "findNearestResnetStation table lat0 lon0 =
     (let stations = getResnetStations table
      in if stations = [] \<or> \<not> isFinite lat0 \<or> \<not> isFinite lon0 then None
         else fst (scanNearest
                     (\<lambda>(k, e). calculateDistance lat0 lon0 (toNumber (r_lat e)) (toNumber (r_lon e)))
                     stations None PosInf))"

text \<open>
  Step 2b, lines 560-578: the degree days of the nearest station of the database are
  copied into the normalized record when they are finite, and the provenance is appended.
\<close>

definition noaaProvenance :: "string \<Rightarrow> string" where
  "noaaProvenance nearestName =
     ''NOAA Normals 2006'' @ enDash @ ''2020 (nearest: '' @ nearestName @ '')''"

definition mergeNoaaStation :: "climate \<Rightarrow> location \<Rightarrow> noaa_station list \<Rightarrow> climate" where
  "mergeNoaaStation normalized loc stations =
     (if stations = [] then normalized
      else
        (case findNearestNoaaStation (loc_latitude loc) (loc_longitude loc) stations of
           None \<Rightarrow> normalized
         | Some (station, distance_mi) \<Rightarrow>
             (let hddN = toNumber (st_hdd station);
                  cddN = toNumber (st_cdd station);
                  n1 = (if isFinite hddN then normalized\<lparr>hdd := Some hddN\<rparr> else normalized);
                  n2 = (if isFinite cddN then n1\<lparr>cdd := Some cddN\<rparr> else n1);
                  src = source n2;
                  nearestName = strOr (st_name station) (strOr (station_id station) ''NOAA Station'')
              in n2\<lparr>source := (if src \<noteq> [] then src @ '' + '' @ noaaProvenance nearestName
                                else noaaProvenance nearestName)\<rparr>)))"

text \<open>
  The county entry of step 2, lines 544-553: the entry of the county index under the
  FIPS code that the county resolver returned (a \<open>null\<close> code reads the key \<open>null\<close>),
  and otherwise the nearest station of the ZIP table, whose \<open>source\<close> is overwritten.
\<close>

definition fipsKey :: "fips_info \<Rightarrow> string" where
  "fipsKey fipsInfo = (case countyFIPS fipsInfo of None \<Rightarrow> ''null'' | Some f \<Rightarrow> f)"

definition findCountyEntry :: "app_state \<Rightarrow> location \<Rightarrow> fips_info \<Rightarrow> (raw_entry \<times> app_state) option" where
  "findCountyEntry s loc fipsInfo =
     (case countyAshraeData s (fipsKey fipsInfo) of
        Some e \<Rightarrow> Some (e, s)
      | None \<Rightarrow>
          (case findNearestResnetStation (resnetTable s) (loc_latitude loc) (loc_longitude loc) of
             None \<Rightarrow> None
           | Some (k, e) \<Rightarrow>
               (let e' = e\<lparr>r_source := Some (''Nearest RESNET Station: ''
                              @ (case r_name e of None \<Rightarrow> ''undefined'' | Some n \<Rightarrow> n))\<rparr>
                in Some (e', s\<lparr>resnetTable :=
                     map (\<lambda>(k', x). if k' = k then (k', e') else (k', x)) (resnetTable s)\<rparr>))))"

text \<open>
  Step 2, lines 539-595. The result is the record or the error that ends the lookup,
  the network calls made, in order, and the globals afterwards.
\<close>

definition networkLookup ::
  "world \<Rightarrow> app_state \<Rightarrow> string \<Rightarrow> (lookup_error + climate) \<times> netcall list \<times> app_state" where
  "networkLookup w s zipCode =
     (case zipService w zipCode of
        None \<Rightarrow> (Inl LocationLookupFailed, [ZipCall zipCode], s)
      | Some locationData \<Rightarrow>
          (let calls = [ZipCall zipCode,
                        FipsCall (loc_latitude locationData) (loc_longitude locationData)]
           in case fipsService w (loc_latitude locationData) (loc_longitude locationData) of
                None \<Rightarrow> (Inl FipsLookupFailed, calls, s)
              | Some fipsInfo \<Rightarrow>
                  (case findCountyEntry s locationData fipsInfo of
                     None \<Rightarrow> (Inl AllLookupsFailed, calls, s)
                   | Some (entry, s1) \<Rightarrow>
                       (let normalized = normalizeCountyEntry entry fipsInfo
                        in if \<not> isFiniteV (heating normalized)
                           then (Inl MissingHeating, calls, s1)
                           else
                             (case loadNoaaStationsDb w s1 of
                                (stations, calls2, s2) \<Rightarrow>
                                  (let merged = mergeNoaaStation normalized locationData stations
                                   in if \<not> isFiniteV (hdd merged)
                                      then (Inl MissingHdd, calls @ calls2, s2)
                                      else (Inr merged, calls @ calls2,
                                            s2\<lparr>climateData := Some merged\<rparr>)))))))"

text \<open>
  \<open>lookupClimateData\<close>, lines 496-595, on the text of the ZIP field. The rendering calls
  (\<open>displayClimateData\<close>, \<open>calculateHVACCosts\<close>, the error and loading banners) are left
  out; they are taken not to throw.
\<close>

definition lookupClimateData ::
  "world \<Rightarrow> app_state \<Rightarrow> string \<Rightarrow> (lookup_error + climate) \<times> netcall list \<times> app_state" where
  "lookupClimateData w s zipField =
     (let zipCode = trim zipField
      in if zipCode = [] \<or> length zipCode \<noteq> 5 then (Inl InvalidZip, [], s)
         else
           (case selectZipEntry (resnetTable s) zipCode of
              Some zr \<Rightarrow>
                if requiredFinite zr
                then (Inr (stage1Record zipCode zr), [],
                      s\<lparr>climateData := Some (stage1Record zipCode zr)\<rparr>)
                else if fileProtocol w then (Inl NeedsNetwork, [], s)
                else networkLookup w s zipCode
            | None \<Rightarrow>
                if fileProtocol w then (Inl NeedsNetwork, [], s)
                else networkLookup w s zipCode))"

section \<open>Dataset merges\<close>

text \<open>
  String helpers of the CSV readers: \<open>split\<close> on one character, the split of a text
  into lines at \<open>\r?\n\<close>, \<open>toLowerCase\<close> and \<open>toUpperCase\<close> on the ASCII letters,
  \<open>padStart(5, '0')\<close>, \<open>indexOf\<close> on the header, and the first of several column names
  that the header has (\<open>[idx(a), idx(b)].find(i => i >= 0)\<close>, \<open>None\<close> for \<open>undefined\<close>).
\<close>

fun splitOn :: "char \<Rightarrow> string \<Rightarrow> string list" where
  "splitOn c [] = [] # []"
| "splitOn c (x # xs) =
     (if x = c then [] # splitOn c xs
      else (case splitOn c xs of [] \<Rightarrow> [x] # [] | l # ls \<Rightarrow> (x # l) # ls))"

definition stripCR :: "string \<Rightarrow> string" where
  "stripCR t = (if t \<noteq> [] \<and> last t = CHR 0x0D then butlast t else t)"

definition splitLines :: "string \<Rightarrow> string list" where
  "splitLines t = (let ps = splitOn (CHR 0x0A) t in map stripCR (butlast ps) @ [last ps])"

definition toLowerCase :: "string \<Rightarrow> string" where
  "toLowerCase t =
     map (\<lambda>c. let n = (of_char c :: nat) in if 65 \<le> n \<and> n \<le> 90 then char_of (n + 32) else c) t"

definition toUpperCase :: "string \<Rightarrow> string" where
  "toUpperCase t =
     map (\<lambda>c. let n = (of_char c :: nat) in if 97 \<le> n \<and> n \<le> 122 then char_of (n - 32) else c) t"

definition padStart5 :: "string \<Rightarrow> string" where
  "padStart5 t = replicate (5 - length t) (CHR ''0'') @ t"

fun indexOf :: "string \<Rightarrow> string list \<Rightarrow> nat option" where
  "indexOf x [] = None"
| "indexOf x (y # ys) = (if x = y then Some 0 else map_option Suc (indexOf x ys))"

fun firstColumn :: "string list \<Rightarrow> string list \<Rightarrow> nat option" where
  "firstColumn header [] = None"
| "firstColumn header (n # ns) =
     (case indexOf n header of Some i \<Rightarrow> Some i | None \<Rightarrow> firstColumn header ns)"

text \<open>\<open>String(cols[i])\<close>: a column beyond the end of the row reads as \<open>undefined\<close>.\<close>

definition col :: "string list \<Rightarrow> nat \<Rightarrow> string" where
  "col cols i = (if i < length cols then cols ! i else ''undefined'')"

definition csvLines :: "string \<Rightarrow> string list" where
  "csvLines t = filter (\<lambda>l. trim l \<noteq> []) (splitLines t)"

definition csvHeader :: "string list \<Rightarrow> string list" where
  "csvHeader ls = map (\<lambda>h. toLowerCase (trim h)) (splitOn (CHR '','') (hd ls))"

text \<open>
  \<open>tryLoadExternalCountyJson\<close>, lines 104-132. What a URL yields: nothing (the fetch
  fails or is not ok, or the body is not JSON), a falsy JSON value, or the entries of
  the index that \<open>buildCountyFipsIndex\<close> builds from the document. The first URL that
  loads ends the search. An entry is added only under a key that the index lacks.
\<close>

datatype json_load = NotLoaded | LoadedFalsy | LoadedIndex "(string \<times> raw_entry) list"

definition candidateUrls :: "string list" where
  "candidateUrls = [''HVAC_Design_Temps_FULL.json'', ''ashrae_county_data.json'']"

fun firstLoaded :: "(string \<Rightarrow> json_load) \<Rightarrow> string list \<Rightarrow> json_load" where
  "firstLoaded files [] = NotLoaded"
| "firstLoaded files (u # us) =
     (case files u of NotLoaded \<Rightarrow> firstLoaded files us | r \<Rightarrow> r)"

definition mergeIfAbsent :: "string \<times> raw_entry \<Rightarrow> (string \<rightharpoonup> raw_entry) \<Rightarrow> (string \<rightharpoonup> raw_entry)" where
  "mergeIfAbsent kv idx = (case kv of (k, v) \<Rightarrow> if idx k = None then idx(k \<mapsto> v) else idx)"

definition tryLoadExternalCountyJson ::
  "(string \<Rightarrow> json_load) \<Rightarrow> (string \<rightharpoonup> raw_entry) \<Rightarrow> (string \<rightharpoonup> raw_entry)" where
  "tryLoadExternalCountyJson files idx =
     (case firstLoaded files candidateUrls of
        LoadedIndex entries \<Rightarrow> fold mergeIfAbsent entries idx
      | _ \<Rightarrow> idx)"

text \<open>
  \<open>tryLoadExternalCountyCsv\<close>, lines 134-183, on the text of the file (\<open>None\<close> when it
  cannot be fetched). \<open>numberOf\<close> is \<open>Number\<close> on a text.
\<close>

definition csvNum :: "(string \<Rightarrow> jsnum) \<Rightarrow> string \<Rightarrow> jsnum option" where
  "csvNum numberOf v = (let n = numberOf (trim v) in if isFinite n then Some n else None)"

definition csvNumAt :: "(string \<Rightarrow> jsnum) \<Rightarrow> string list \<Rightarrow> nat option \<Rightarrow> jsnum option" where
  "csvNumAt numberOf cols i = (case i of None \<Rightarrow> None | Some j \<Rightarrow> csvNum numberOf (col cols j))"

definition csvRow ::
  "(string \<Rightarrow> jsnum) \<Rightarrow> string list \<Rightarrow> nat \<Rightarrow> string
     \<Rightarrow> (string \<rightharpoonup> raw_entry) \<Rightarrow> (string \<rightharpoonup> raw_entry)" where
  "csvRow numberOf header fipsIdx line idx =
     (let cols = splitOn (CHR '','') line
      in if length cols \<le> fipsIdx then idx
         else
           (let fips = padStart5 (trim (col cols fipsIdx))
            in if fips = [] \<or> idx fips \<noteq> None then idx
               else idx(fips \<mapsto>
                 emptyEntry\<lparr>
                   r_name := map_option (\<lambda>i. trim (col cols i))
                     (firstColumn header [''name'', ''county'', ''county_name'']),
                   r_state := map_option (\<lambda>i. toUpperCase (trim (col cols i)))
                     (firstColumn header [''state'', ''state_abbr'', ''state_code'']),
                   r_fips := Some fips,
                   r_heating := csvNumAt numberOf cols
                     (firstColumn header [''heating'', ''heating_99'', ''heatingdesign'', ''heating_design'']),
                   r_cooling := csvNumAt numberOf cols
                     (firstColumn header [''cooling'', ''cooling_01'', ''coolingdesign'', ''cooling_design'']),
                   r_hdd := csvNumAt numberOf cols
                     (firstColumn header [''hdd'', ''hdd65'', ''heating_degree_days'']),
                   r_cdd := csvNumAt numberOf cols
                     (firstColumn header [''cdd'', ''cdd65'', ''cooling_degree_days'']),
                   r_source := Some ''External CSV import''\<rparr>)))"

definition tryLoadExternalCountyCsv ::
  "(string \<Rightarrow> jsnum) \<Rightarrow> string option \<Rightarrow> (string \<rightharpoonup> raw_entry) \<Rightarrow> (string \<rightharpoonup> raw_entry)" where
  "tryLoadExternalCountyCsv numberOf file idx =
     (case file of
        None \<Rightarrow> idx
      | Some text \<Rightarrow>
          (let ls = csvLines text
           in if length ls < 2 then idx
              else
                (let header = csvHeader ls
                 in case firstColumn header [''fips'', ''county_fips''] of
                      None \<Rightarrow> idx
                    | Some fipsIdx \<Rightarrow> fold (csvRow numberOf header fipsIdx) (tl ls) idx)))"

text \<open>
  \<open>tryMergeNoaaNormalsHddCdd\<close>, lines 186-240. \<open>parseFloatOf\<close> is \<open>parseFloat\<close> on a text.
  The stations are read first (lines 192-220); then every entry of the index that lacks
  a finite \<open>hdd\<close> or \<open>cdd\<close> takes the missing one from its nearest station when that
  station has a finite value (lines 222-235).
\<close>

definition normalsStation ::
  "(string \<Rightarrow> jsnum) \<Rightarrow> string list \<Rightarrow> nat \<Rightarrow> nat \<Rightarrow> nat \<Rightarrow> string \<Rightarrow> normals_station option" where
  "normalsStation parseFloatOf header idIdx latIdx lonIdx line =
     (let cols = splitOn (CHR '','') line
      in if length cols \<le> max (max idIdx latIdx) lonIdx then None
         else
           (let station = \<lparr>
                  ns_id = trim (col cols idIdx),
                  ns_name = (case firstColumn header [''station_name'', ''name''] of
                               None \<Rightarrow> [] | Some i \<Rightarrow> trim (col cols i)),
                  ns_lat = parseFloatOf (col cols latIdx),
                  ns_lon = parseFloatOf (col cols lonIdx),
                  ns_hdd = map_option (\<lambda>i. parseFloatOf (col cols i))
                             (firstColumn header [''hdd65_ann'', ''hdd65'', ''hdd'']),
                  ns_cdd = map_option (\<lambda>i. parseFloatOf (col cols i))
                             (firstColumn header [''cdd65_ann'', ''cdd65'', ''cdd''])\<rparr>
            in if isFinite (ns_lat station) \<and> isFinite (ns_lon station) then Some station
               else None))"

definition normalsStations :: "(string \<Rightarrow> jsnum) \<Rightarrow> string \<Rightarrow> normals_station list" where
  "normalsStations parseFloatOf text =
     (let ls = csvLines text
      in if length ls < 2 then []
         else
           (let header = csvHeader ls
            in case (firstColumn header [''station_id'', ''id'', ''station''],
                     firstColumn header [''latitude'', ''lat''],
                     firstColumn header [''longitude'', ''lon'', ''lng'']) of
                 (Some idIdx, Some latIdx, Some lonIdx) \<Rightarrow>
                   List.map_filter (normalsStation parseFloatOf header idIdx latIdx lonIdx) (tl ls)
               | _ \<Rightarrow> []))"

definition fillDegreeDays :: "normals_station list \<Rightarrow> raw_entry \<Rightarrow> raw_entry" where
  "fillDegreeDays stations entry =
     (let needsHdd = \<not> isFiniteV (r_hdd entry);
          needsCdd = \<not> isFiniteV (r_cdd entry)
      in if \<not> needsHdd \<and> \<not> needsCdd then entry
         else
           (case nearestStation (r_lat entry) (r_lon entry) stations of
              None \<Rightarrow> entry
            | Some nearest \<Rightarrow>
                (let e1 = (if needsHdd \<and> isFiniteV (ns_hdd nearest)
                           then entry\<lparr>r_hdd := ns_hdd nearest\<rparr> else entry);
                     e2 = (if needsCdd \<and> isFiniteV (ns_cdd nearest)
                           then e1\<lparr>r_cdd := ns_cdd nearest\<rparr> else e1)
                 in e2)))"

definition tryMergeNoaaNormalsHddCdd ::
  "(string \<Rightarrow> jsnum) \<Rightarrow> string option \<Rightarrow> (string \<rightharpoonup> raw_entry) \<Rightarrow> (string \<rightharpoonup> raw_entry)" where
  "tryMergeNoaaNormalsHddCdd parseFloatOf file idx =
     (case file of
        None \<Rightarrow> idx
      | Some text \<Rightarrow>
          (let stations = normalsStations parseFloatOf text
           in if stations = [] then idx
              else (\<lambda>k. map_option (fillDegreeDays stations) (idx k))))"

text \<open>
  A merge operation with what its source holds when it runs, and a sequence of
  operations applied to the county index, first to last.
\<close>

datatype merge_op =
    JsonMerge "string \<Rightarrow> json_load"
  | CsvMerge "string option"
  | NoaaNormalsMerge "string option"

fun applyMerge ::
  "(string \<Rightarrow> jsnum) \<Rightarrow> (string \<Rightarrow> jsnum) \<Rightarrow> merge_op
     \<Rightarrow> (string \<rightharpoonup> raw_entry) \<Rightarrow> (string \<rightharpoonup> raw_entry)" where
  "applyMerge numberOf parseFloatOf (JsonMerge files) idx = tryLoadExternalCountyJson files idx"
| "applyMerge numberOf parseFloatOf (CsvMerge file) idx = tryLoadExternalCountyCsv numberOf file idx"
| "applyMerge numberOf parseFloatOf (NoaaNormalsMerge file) idx =
     tryMergeNoaaNormalsHddCdd parseFloatOf file idx"

definition runMerges ::
  "(string \<Rightarrow> jsnum) \<Rightarrow> (string \<Rightarrow> jsnum) \<Rightarrow> merge_op list
     \<Rightarrow> (string \<rightharpoonup> raw_entry) \<Rightarrow> (string \<rightharpoonup> raw_entry)" where
  "runMerges numberOf parseFloatOf ops idx = fold (applyMerge numberOf parseFloatOf) ops idx"

text \<open>
  An entry is kept: every field but \<open>hdd\<close> and \<open>cdd\<close> is the same, and a finite \<open>hdd\<close>
  or \<open>cdd\<close> is the same too.
\<close>

definition kept :: "raw_entry \<Rightarrow> raw_entry \<Rightarrow> bool" where
  "kept e e' =
     (e' = e\<lparr>r_hdd := r_hdd e', r_cdd := r_cdd e'\<rparr>
      \<and> (isFiniteV (r_hdd e) \<longrightarrow> r_hdd e' = r_hdd e)
      \<and> (isFiniteV (r_cdd e) \<longrightarrow> r_cdd e' = r_cdd e))"

section \<open>Example inputs\<close>

text \<open>
  The inputs of the scenarios: a design load of 50000 BTU/hr, a furnace of 95 percent,
  electricity at 0.12 and gas at 1.20, a heat pump of COP 3.5 and a manual crossover of
  35 degrees; the globals at start-up, before any file is merged; the records that stage
  1 builds for the ZIP codes 33101 and 97201; a record whose heating design temperature
  is the base temperature; and a lookup of ZIP 97219 that the county resolver places in
  Clackamas County, with one station in the station database at the same coordinates.
\<close>

definition exampleLoads :: house_loads where
  "exampleLoads = \<lparr>loadHeating = Num 50000, loadCooling = Num 40000\<rparr>"

definition exampleForm :: form_inputs where
  "exampleForm = \<lparr>electricityRateField = Num (12 / 100), gasRateField = Num (12 / 10),
     heatPumpCOPField = Num (35 / 10), furnaceEfficiencyField = Num 95,
     autoCrossover = False, crossoverTempField = Num 35\<rparr>"

definition initialState :: app_state where
  "initialState = \<lparr>resnetTable = RESNET_ASHRAE_DATA,
     countyAshraeData = map_of ASHRAE_COUNTY_DATA,
     NOAA_STATIONS_DB = None, climateData = None\<rparr>"


definition portlandClimate :: climate where
  "portlandClimate = \<lparr>name = ''Portland, OR'', heating = Some (Num 20), cooling = Some (Num 88),
     hdd = Some (Num 4000), cdd = Some (Num 400),
     source = ''RESNET/ASHRAE ZIP 97201 '' @ enDash @ '' Portland International Airport'',
     lat = Some (Num (45589 / 1000)), lon = Some (Num (- (122593 / 1000)))\<rparr>"

definition baseDesignClimate :: climate where
  "baseDesignClimate = \<lparr>name = ''Warm County, FL'', heating = Some (Num 65),
     cooling = Some (Num 91), hdd = Some (Num 200), cdd = Some (Num 3500),
     source = ''External CSV import'', lat = None, lon = None\<rparr>"

definition clackamasFips :: fips_info where
  "clackamasFips = \<lparr>countyFIPS = Some ''41005'', countyName = ''Clackamas County'',
     stateAbbr = ''OR''\<rparr>"

definition portlandLocation :: location where
  "portlandLocation = \<lparr>loc_latitude = Num (4545 / 100), loc_longitude = Num (- (1227 / 10)),
     city = ''Portland'', loc_state = ''OR''\<rparr>"

definition portlandStation :: noaa_station where
  "portlandStation = \<lparr>latitude = Some (Num (4545 / 100)), longitude = Some (Num (- (1227 / 10))),
     st_hdd = Some (Num 4400), st_cdd = Some (Num 390), st_name = Some ''PORTLAND INTL AP'',
     station_id = Some ''USW00024229''\<rparr>"

definition boundaryWorld :: world where
  "boundaryWorld = \<lparr>fileProtocol = False,
     zipService = (\<lambda>z. if z = ''97219'' then Some portlandLocation else None),
     fipsService = (\<lambda>la lo. Some clackamasFips),
     noaaDatabaseFile = Some [portlandStation]\<rparr>"

text \<open>
  Sources for the merges: a JSON index under the second URL that repeats the key 41005
  and brings the new key 12086, a county CSV with a header in mixed case, a repeated
  FIPS and a short one, a normals CSV with one station, an entry without degree days
  at the coordinates of that station, and stand-ins for \<open>Number\<close> and \<open>parseFloat\<close> on
  the few texts that occur.
\<close>

definition exampleNumberOf :: "string \<Rightarrow> jsnum" where
  "exampleNumberOf t =
     (if t = ''10'' then Num 10 else if t = ''5000'' then Num 5000
      else if t = ''45'' then Num 45 else if t = ''-122'' then Num (- 122)
      else if t = ''4321'' then Num 4321 else NaN)"

definition exampleJson :: "string \<Rightarrow> json_load" where
  "exampleJson url =
     (if url = ''ashrae_county_data.json''
      then LoadedIndex [(''41005'', miamiEntry), (''12086'', miamiEntry)] else NotLoaded)"

definition exampleCsv :: string where
  "exampleCsv = ''FIPS, Heating ,HDD'' @ [CHR 0x0D, CHR 0x0A] @ ''41005,10,5000'' @ [CHR 0x0A]
     @ [CHR 0x0A] @ ''123,10,5000''"

definition exampleNormals :: string where
  "exampleNormals = ''station_id,lat,lon,hdd'' @ [CHR 0x0A] @ ''X1,45,-122,4321''"

definition bareEntry :: raw_entry where
  "bareEntry = emptyEntry\<lparr>r_heating := Some (Num 10), r_lat := Some (Num 45),
     r_lon := Some (Num (- 122))\<rparr>"

text \<open>
  The heat-pump share as the specification words it, on finite temperatures: 1 when the
  heating design temperature exceeds the crossover, 1 when the crossover is at or above
  65, 0 when the crossover is at or below the design temperature, and otherwise
  \<open>min(1, (65 - crossover) / (65 - heatingDesign))\<close>.
\<close>

definition spec_share :: "real \<Rightarrow> real \<Rightarrow> real" where
  "spec_share heatingDesign crossover =
     (if heatingDesign > crossover then 1
      else if crossover \<ge> 65 then 1
      else if crossover \<le> heatingDesign then 0
      else min 1 ((65 - crossover) / (65 - heatingDesign)))"

section \<open>The share function without heating data\<close>

text \<open>
  Claim C10. For every heating design temperature and crossover temperature, when
  \<open>hdd\<close> is absent, zero or negative (or NaN), calculateHeatPumpEfficiency returns
  \<open>null\<close> and not a number, and the split bar that consumes the share falls back to its
  default state.
\<close>

theorem share_null_without_hdd:
  assumes "h = None \<or> h = Some NaN \<or> h = Some NegInf \<or> (\<exists>x. h = Some (Num x) \<and> x \<le> 0)"
  shows "calculateHeatPumpEfficiency heatingDesign crossoverTemp h = None
    \<and> updateHybridSplitBar (calculateHeatPumpEfficiency heatingDesign crossoverTemp h) = SplitDefault"
  using assms by (auto simp: calculateHeatPumpEfficiency_def updateHybridSplitBar_def falsyV_def)

theorem share_null_without_hdd_witness:
  "calculateHeatPumpEfficiency (Num 20) (Num 35) (Some (Num 0)) = None
    \<and> updateHybridSplitBar (calculateHeatPumpEfficiency (Num 20) (Num 35) (Some (Num 0))) = SplitDefault"
proof -
  have h: "Some (Num 0) = None \<or> Some (Num 0) = Some NaN \<or> Some (Num 0) = Some NegInf
    \<or> (\<exists>x. Some (Num 0) = Some (Num x) \<and> x \<le> 0)"
    by simp
  from share_null_without_hdd [OF h] show ?thesis .
qed

section \<open>The cost model at the base temperature\<close>

text \<open>
  Claim C1. The cost computation has no check of the heating design temperature: at
  \<open>heatingDesignTempF = 65\<close> the heat loss rate is \<open>50000 / 0\<close>, and calculateHVACCosts
  returns cost records whose \<open>energy\<close> and \<open>total\<close> are Infinity (furnace, heat pump)
  and NaN (hybrid, where an infinite load is multiplied by a furnace share of 0) instead
  of rejecting the record. (\<open>updateAnnualHeatingDisplay\<close>, lines 287-288, returns early when
  the same difference is not positive.)
\<close>

theorem cost_at_base_temperature_is_infinite:
  "total (furnace (results (calculateHVACCosts exampleLoads baseDesignClimate exampleForm))) = PosInf
 \<and> total (heatPump (results (calculateHVACCosts exampleLoads baseDesignClimate exampleForm))) = PosInf
 \<and> total (hybrid (results (calculateHVACCosts exampleLoads baseDesignClimate exampleForm))) = NaN
 \<and> energy (furnace (results (calculateHVACCosts exampleLoads baseDesignClimate exampleForm))) = PosInf
 \<and> maxCost (calculateHVACCosts exampleLoads baseDesignClimate exampleForm) = NaN"
  by (simp add: calculateHVACCosts_def calculateSystemCosts_def systemBranch_def
      annualHeatingLoad_def annualCoolingLoad_def heatPumpPercentage_def baseDesignClimate_def
      exampleForm_def exampleLoads_def jsor_def jssub_def jsgt_def jsmax_def isFiniteV_def
      inf_of_sign_def Let_def)

section \<open>The share of the hybrid branch\<close>

text \<open>
  Claim C2. The hybrid branch of calculateSystemCosts does not use the piecewise
  function of the specification: its share is a step table. At a design temperature of
  20 and a crossover of 35 the branch splits the load by 0.5, where the specification
  (and calculateHeatPumpEfficiency, which the displays use) gives 2/3; the kWh of the
  hybrid system are those of a share of one half.
\<close>

theorem hybrid_branch_uses_step_share:
  "heatPumpPercentage (Num 20) (Num 35) = Num (1 / 2)
 \<and> spec_share 20 35 = 2 / 3
 \<and> calculateHeatPumpEfficiency (Num 20) (Num 35) (Some (Num 4000)) = Some (Num (2 / 3))
 \<and> annualKWh (hybrid (results (calculateHVACCosts exampleLoads portlandClimate exampleForm)))
      = Num (80000000 / 17913)
 \<and> annualKWh (heatPump (results (calculateHVACCosts exampleLoads portlandClimate exampleForm)))
      = Num (160000000 / 17913)"
  by (simp add: calculateHVACCosts_def calculateSystemCosts_def systemBranch_def
      annualHeatingLoad_def annualCoolingLoad_def heatPumpPercentage_def portlandClimate_def
      exampleForm_def exampleLoads_def jsor_def jssub_def jsgt_def jsge_def jsmin_def
      isFiniteV_def spec_share_def calculateHeatPumpEfficiency_def falsyV_def baseTemp_def Let_def)

section \<open>Monotonicity of the share function\<close>

lemma share_endpoints:
  assumes "d < 65" "0 < h"
  shows "calculateHeatPumpEfficiency (Num d) (Num 65) (Some (Num h)) = Some (Num 1)"
    and "calculateHeatPumpEfficiency (Num d) (Num d) (Some (Num h)) = Some (Num 0)"
  using assms by (simp_all add: calculateHeatPumpEfficiency_def falsyV_def baseTemp_def jsge_def)

text \<open>
  Claim C6. The two end points hold (lemma \<open>share_endpoints\<close>), but between them
  calculateHeatPumpEfficiency falls as the crossover rises: for a design temperature of
  20 the share is 7/9 at a crossover of 30 and 1/3 at a crossover of 50, and it is 0 at
  a crossover of 20 and 1 at a crossover of 65. The function is not monotonically
  non-decreasing in the crossover temperature.
\<close>

theorem share_falls_as_crossover_rises:
  "calculateHeatPumpEfficiency (Num 20) (Num 20) (Some (Num 4000)) = Some (Num 0)
 \<and> calculateHeatPumpEfficiency (Num 20) (Num 30) (Some (Num 4000)) = Some (Num (7 / 9))
 \<and> calculateHeatPumpEfficiency (Num 20) (Num 50) (Some (Num 4000)) = Some (Num (1 / 3))
 \<and> calculateHeatPumpEfficiency (Num 20) (Num 65) (Some (Num 4000)) = Some (Num 1)"
  by (simp add: calculateHeatPumpEfficiency_def falsyV_def baseTemp_def jsge_def jssub_def jsmin_def)

section \<open>The hybrid cost lies between the single-mode costs\<close>










section \<open>Stage 1 of the lookup\<close>





section \<open>The FIPS override table\<close>

lemma nearest_portland:
  "findNearestNoaaStation (Num (4545 / 100)) (Num (- (1227 / 10))) [portlandStation]
     = Some (portlandStation, Num 0)"
  by (simp add: findNearestNoaaStation_def portlandStation_def isFiniteV_def calculateDistance_def
      greatCircle_def toRad_def jssub_def jsPI_def atan2_def Let_def)

lemmas lookup_defs = lookupClimateData_def trim_def isSpace_def selectZipEntry_def
  RESNET_ASHRAE_DATA_def LOCAL_RESNET_FALLBACK_def initialState_def boundaryWorld_def
  networkLookup_def findCountyEntry_def fipsKey_def ASHRAE_COUNTY_DATA_def
  normalizeCountyEntry_def clackamasEntry_def clackamasFips_def portlandLocation_def
  countyEntry_def zipEntry_def miamiEntry_def emptyEntry_def getNum_def nullish_def strOr_def
  isFiniteV_def loadNoaaStationsDb_def mergeNoaaStation_def portlandStation_def Let_def

text \<open>
  Claim C4. \<open>ZIP_TO_FIPS_OVERRIDE\<close> maps ZIP 97219 to FIPS 41051 (Multnomah County), but
  the lookup never reads the table: when the county resolver answers 41005 for the
  coordinates of 97219, the county lookup uses 41005 and returns the record of
  Clackamas County, although the index holds the Multnomah County entry under 41051.
\<close>

theorem override_table_is_not_consulted:
  "map_of ZIP_TO_FIPS_OVERRIDE ''97219'' = Some ''41051''
 \<and> map_option r_name (countyAshraeData initialState ''41051'') = Some (Some ''Multnomah County, OR'')
 \<and> selectZipEntry (resnetTable initialState) ''97219'' = None
 \<and> map_sum id name (fst (lookupClimateData boundaryWorld initialState ''97219''))
      = Inr ''Clackamas County, OR''
 \<and> fst (snd (lookupClimateData boundaryWorld initialState ''97219''))
      = [ZipCall ''97219'', FipsCall (Num (4545 / 100)) (Num (- (1227 / 10))), NoaaDatabaseFetch]"
  using nearest_portland by (simp add: ZIP_TO_FIPS_OVERRIDE_def lookup_defs)

section \<open>Degree-day enrichment\<close>






section \<open>Non-finite coordinates and empty candidate sets\<close>

lemma jsmul_NaN_right [simp]: "jsmul x NaN = NaN"
  by (cases x) simp_all

lemma jsadd_NaN_right [simp]: "jsadd x NaN = NaN"
  by (cases x) simp_all

lemma nonfinite_sub: "\<not> isFinite x \<or> \<not> isFinite y \<Longrightarrow> \<not> isFinite (jssub y x)"
  by (cases x; cases y) (simp_all add: jssub_def)

lemma nonfinite_toRad: "\<not> isFinite x \<Longrightarrow> \<not> isFinite (toRad x)"
  by (cases x) (simp_all add: toRad_def jsPI_def inf_of_sign_def)

lemma nonfinite_half: "\<not> isFinite x \<Longrightarrow> \<not> isFinite (jsdiv x (Num 2))"
  by (cases x) simp_all

lemma jssin_nonfinite: "\<not> isFinite x \<Longrightarrow> jssin x = NaN"
  by (cases x) simp_all

lemma half_angle_NaN:
  "\<not> isFinite x \<or> \<not> isFinite y \<Longrightarrow> jssin (jsdiv (toRad (jssub y x)) (Num 2)) = NaN"
  by (intro jssin_nonfinite nonfinite_half nonfinite_toRad nonfinite_sub)

lemma greatCircle_NaN:
  assumes "\<not> isFinite lat1 \<or> \<not> isFinite lon1 \<or> \<not> isFinite lat2 \<or> \<not> isFinite lon2"
  shows "greatCircle R lat1 lon1 lat2 lon2 = NaN"
proof -
  consider "\<not> isFinite lat1 \<or> \<not> isFinite lat2" | "\<not> isFinite lon1 \<or> \<not> isFinite lon2"
    using assms by blast
  then show ?thesis
  proof cases
    case 1
    then have "jssin (jsdiv (toRad (jssub lat2 lat1)) (Num 2)) = NaN"
      by (rule half_angle_NaN)
    then show ?thesis by (simp add: greatCircle_def Let_def jssub_def)
  next
    case 2
    then have "jssin (jsdiv (toRad (jssub lon2 lon1)) (Num 2)) = NaN"
      by (rule half_angle_NaN)
    then show ?thesis by (simp add: greatCircle_def Let_def jssub_def)
  qed
qed

text \<open>
  Claim C9, as stated: with a coordinate that is not finite the distance utility returns
  the sentinel and not NaN. It fails: calculateDistance and haversine have no test of
  their arguments and return NaN.
\<close>

theorem distance_of_nonfinite_coordinate_is_nan:
  "calculateDistance NaN (Num 0) (Num 0) (Num 0) = NaN
 \<and> haversine (Num 0) (Num 0) PosInf (Num 0) = NaN"
  by (simp add: calculateDistance_def haversine_def greatCircle_NaN)

text \<open>
  Claim C9, amended. The nearest-match scans findNearestNoaaStation, nearestStation and
  findNearestResnetStation return \<open>null\<close> when a coordinate of the query is not finite or
  the candidate set is empty. The distance functions calculateDistance and haversine
  have no sentinel: for every numeric input they return a number, which is NaN when any
  coordinate is not finite. None of these functions has a path that throws.
\<close>

theorem nearest_scans_return_null:
  "(\<not> isFinite la \<or> \<not> isFinite lo \<or> sts = [] \<longrightarrow> findNearestNoaaStation la lo sts = None)
 \<and> (\<not> isFiniteV la' \<or> \<not> isFiniteV lo' \<or> nsts = [] \<longrightarrow> nearestStation la' lo' nsts = None)
 \<and> (\<not> isFinite la \<or> \<not> isFinite lo \<or> getResnetStations table = []
      \<longrightarrow> findNearestResnetStation table la lo = None)
 \<and> (\<not> isFinite a \<or> \<not> isFinite b \<or> \<not> isFinite c \<or> \<not> isFinite d \<longrightarrow>
       calculateDistance a b c d = NaN \<and> haversine a b c d = NaN)"
  by (auto simp: findNearestNoaaStation_def nearestStation_def findNearestResnetStation_def
      calculateDistance_def haversine_def greatCircle_NaN Let_def)

theorem nearest_scans_return_null_witness:
  "\<not> isFinite NegInf
 \<and> findNearestNoaaStation NegInf (Num 0) [portlandStation] = None
 \<and> nearestStation (Some (Num 0)) None [] = None
 \<and> findNearestResnetStation RESNET_ASHRAE_DATA NegInf (Num 0) = None
 \<and> calculateDistance (Num 0) NegInf (Num 0) (Num 0) = NaN"
proof -
  have h: "\<not> isFinite NegInf" by simp
  have g: "\<not> isFiniteV None" by (simp add: isFiniteV_def)
  from nearest_scans_return_null
    [of NegInf "Num 0" "[portlandStation]" "Some (Num 0)" None "[]" RESNET_ASHRAE_DATA
        "Num 0" NegInf "Num 0" "Num 0"] h g
  show ?thesis by blast
qed

section \<open>The merges never overwrite\<close>

lemma kept_refl: "kept e e"
  by (simp add: kept_def)

lemma kept_trans: "kept a b \<Longrightarrow> kept b c \<Longrightarrow> kept a c"
  by (cases a; cases b; cases c) (auto simp: kept_def)

lemma mergeIfAbsent_keeps: "idx k = Some e \<Longrightarrow> mergeIfAbsent kv idx k = Some e"
  by (cases kv) (auto simp: mergeIfAbsent_def)

lemma fold_mergeIfAbsent_keeps: "idx k = Some e \<Longrightarrow> fold mergeIfAbsent entries idx k = Some e"
  by (induction entries arbitrary: idx) (simp_all add: mergeIfAbsent_keeps)

lemma json_keeps: "idx k = Some e \<Longrightarrow> tryLoadExternalCountyJson files idx k = Some e"
  by (simp add: tryLoadExternalCountyJson_def fold_mergeIfAbsent_keeps split: json_load.splits)

lemma csvRow_keeps: "idx k = Some e \<Longrightarrow> csvRow numberOf header fipsIdx line idx k = Some e"
  by (auto simp: csvRow_def Let_def)

lemma fold_csvRow_keeps:
  "idx k = Some e \<Longrightarrow> fold (csvRow numberOf header fipsIdx) rows idx k = Some e"
  by (induction rows arbitrary: idx) (simp_all add: csvRow_keeps)

lemma csv_keeps: "idx k = Some e \<Longrightarrow> tryLoadExternalCountyCsv numberOf file idx k = Some e"
  by (simp add: tryLoadExternalCountyCsv_def Let_def fold_csvRow_keeps split: option.splits)

lemma fillDegreeDays_kept: "kept e (fillDegreeDays stations e)"
  by (auto simp: fillDegreeDays_def kept_def Let_def split: option.splits)

lemma noaa_keeps:
  "idx k = Some e \<Longrightarrow> \<exists>e'. tryMergeNoaaNormalsHddCdd parseFloatOf file idx k = Some e' \<and> kept e e'"
  by (auto simp: tryMergeNoaaNormalsHddCdd_def Let_def fillDegreeDays_kept kept_refl split: option.splits)

lemma applyMerge_keeps:
  "idx k = Some e \<Longrightarrow> \<exists>e'. applyMerge numberOf parseFloatOf mop idx k = Some e' \<and> kept e e'"
  by (cases mop) (auto simp: json_keeps csv_keeps kept_refl intro: noaa_keeps)

lemma runMerges_keeps:
  "idx k = Some e \<Longrightarrow> \<exists>e'. runMerges numberOf parseFloatOf ops idx k = Some e' \<and> kept e e'"
proof (induction ops arbitrary: idx e)
  case Nil
  then show ?case by (simp add: runMerges_def kept_refl)
next
  case (Cons mop ops)
  from Cons.prems
  have "\<exists>e'. applyMerge numberOf parseFloatOf mop idx k = Some e' \<and> kept e e'"
    by (rule applyMerge_keeps)
  then obtain e1
    where e1: "applyMerge numberOf parseFloatOf mop idx k = Some e1" "kept e e1" by blast
  from e1(1)
  have "\<exists>e'. runMerges numberOf parseFloatOf ops (applyMerge numberOf parseFloatOf mop idx) k = Some e'
      \<and> kept e1 e'"
    by (rule Cons.IH)
  then obtain e2
    where e2: "runMerges numberOf parseFloatOf ops (applyMerge numberOf parseFloatOf mop idx) k = Some e2"
      "kept e1 e2" by blast
  have "runMerges numberOf parseFloatOf (mop # ops) idx k = Some e2"
    using e2(1) by (simp add: runMerges_def)
  moreover have "kept e e2" using e1(2) e2(2) by (rule kept_trans)
  ultimately show ?case by blast
qed

text \<open>The merges do add what is new: small sources, evaluated.\<close>

lemma csvLines_example:
  "csvLines exampleCsv = [''FIPS, Heating ,HDD'', ''41005,10,5000'', ''123,10,5000'']"
  by (simp add: csvLines_def splitLines_def exampleCsv_def stripCR_def trim_def isSpace_def Let_def)

lemma csvHeader_example:
  "csvHeader [''FIPS, Heating ,HDD'', ''41005,10,5000'', ''123,10,5000'']
     = [''fips'', ''heating'', ''hdd'']"
  by (simp add: csvHeader_def toLowerCase_def trim_def isSpace_def Let_def char_of_def bit_iff_odd)

lemma normalsStations_example:
  "normalsStations exampleNumberOf exampleNormals
     = [\<lparr>ns_id = ''X1'', ns_name = [], ns_lat = Num 45, ns_lon = Num (- 122),
         ns_hdd = Some (Num 4321), ns_cdd = None\<rparr>]"
  by (simp add: normalsStations_def csvLines_def splitLines_def exampleNormals_def stripCR_def
      trim_def isSpace_def csvHeader_def toLowerCase_def Let_def normalsStation_def col_def
      exampleNumberOf_def List.map_filter_def char_of_def bit_iff_odd)

lemma merges_add_new_entries:
  "tryLoadExternalCountyJson exampleJson (map_of ASHRAE_COUNTY_DATA) ''12086'' = Some miamiEntry"
  "map_option r_hdd (tryLoadExternalCountyCsv exampleNumberOf (Some exampleCsv)
      (map_of ASHRAE_COUNTY_DATA) ''00123'') = Some (Some (Num 5000))"
  "map_option r_hdd (tryMergeNoaaNormalsHddCdd exampleNumberOf (Some exampleNormals)
      [''99999'' \<mapsto> bareEntry] ''99999'') = Some (Some (Num 4321))"
proof -
  show "tryLoadExternalCountyJson exampleJson (map_of ASHRAE_COUNTY_DATA) ''12086'' = Some miamiEntry"
    by (simp add: tryLoadExternalCountyJson_def candidateUrls_def exampleJson_def
        mergeIfAbsent_def ASHRAE_COUNTY_DATA_def)
  show "map_option r_hdd (tryLoadExternalCountyCsv exampleNumberOf (Some exampleCsv)
      (map_of ASHRAE_COUNTY_DATA) ''00123'') = Some (Some (Num 5000))"
    by (simp add: tryLoadExternalCountyCsv_def csvLines_example csvHeader_example Let_def
        csvRow_def col_def padStart5_def trim_def isSpace_def ASHRAE_COUNTY_DATA_def
        csvNumAt_def csvNum_def exampleNumberOf_def numeral_2_eq_2)
  show "map_option r_hdd (tryMergeNoaaNormalsHddCdd exampleNumberOf (Some exampleNormals)
      [''99999'' \<mapsto> bareEntry] ''99999'') = Some (Some (Num 4321))"
    by (simp add: tryMergeNoaaNormalsHddCdd_def normalsStations_example fillDegreeDays_def
        bareEntry_def emptyEntry_def isFiniteV_def nearestStation_def haversine_def
        greatCircle_def toRad_def jssub_def jsPI_def atan2_def Let_def)
qed

text \<open>
  Claim C7. For every FIPS code already present in the county index, the external JSON
  merge and the external CSV merge leave its entry exactly as it was (they only add
  keys that the index lacks), the NOAA-normals merge leaves every field of the entry
  but \<open>hdd\<close> and \<open>cdd\<close> as it was and leaves a finite \<open>hdd\<close> or \<open>cdd\<close> as it was, and so does
  every sequence of these three merges, in any order and with any sources.
\<close>

theorem merges_never_overwrite:
  assumes "idx k = Some e"
  shows "tryLoadExternalCountyJson files idx k = Some e
    \<and> tryLoadExternalCountyCsv numberOf csvFile idx k = Some e
    \<and> (\<exists>e'. tryMergeNoaaNormalsHddCdd parseFloatOf normalsFile idx k = Some e' \<and> kept e e')
    \<and> (\<exists>e'. runMerges numberOf parseFloatOf ops idx k = Some e' \<and> kept e e')"
proof (intro conjI)
  show "tryLoadExternalCountyJson files idx k = Some e"
    using assms by (rule json_keeps)
  show "tryLoadExternalCountyCsv numberOf csvFile idx k = Some e"
    using assms by (rule csv_keeps)
  show "\<exists>e'. tryMergeNoaaNormalsHddCdd parseFloatOf normalsFile idx k = Some e' \<and> kept e e'"
    using assms by (rule noaa_keeps)
  show "\<exists>e'. runMerges numberOf parseFloatOf ops idx k = Some e' \<and> kept e e'"
    using assms by (rule runMerges_keeps)
qed

theorem merges_never_overwrite_witness:
  "map_of ASHRAE_COUNTY_DATA ''41005'' = Some clackamasEntry
 \<and> tryLoadExternalCountyJson exampleJson (map_of ASHRAE_COUNTY_DATA) ''41005'' = Some clackamasEntry
 \<and> tryLoadExternalCountyCsv exampleNumberOf (Some exampleCsv) (map_of ASHRAE_COUNTY_DATA) ''41005''
      = Some clackamasEntry
 \<and> (\<exists>e'. tryMergeNoaaNormalsHddCdd exampleNumberOf (Some exampleNormals)
            (map_of ASHRAE_COUNTY_DATA) ''41005'' = Some e' \<and> kept clackamasEntry e')
 \<and> (\<exists>e'. runMerges exampleNumberOf exampleNumberOf
            [JsonMerge exampleJson, CsvMerge (Some exampleCsv), NoaaNormalsMerge (Some exampleNormals)]
            (map_of ASHRAE_COUNTY_DATA) ''41005'' = Some e' \<and> kept clackamasEntry e')"
proof -
  have h: "map_of ASHRAE_COUNTY_DATA ''41005'' = Some clackamasEntry"
    by (simp add: ASHRAE_COUNTY_DATA_def)
  note r = merges_never_overwrite [of "map_of ASHRAE_COUNTY_DATA" "''41005''" clackamasEntry
      exampleJson exampleNumberOf "Some exampleCsv" exampleNumberOf "Some exampleNormals"
      "[JsonMerge exampleJson, CsvMerge (Some exampleCsv), NoaaNormalsMerge (Some exampleNormals)]", OF h]
  from h r show ?thesis by (rule conjI)
qed

end
